theory Spec2Isabelle
  imports Main
begin

section \<open>Values of the host language\<close>

text \<open>
  The menu item of \<^verbatim>\<open>menuitem.ts\<close> is a class of a dynamically typed host language.
  An optional field is an \<open>option\<close>; a condition \<^verbatim>\<open>if (x)\<close> tests truthiness: an
  absent value and the empty string are falsy, an absent boolean and \<open>false\<close> are falsy,
  the number zero is falsy, and every object is truthy.
\<close>

definition truthy_str :: "string option \<Rightarrow> bool" where
  "truthy_str v = (case v of None \<Rightarrow> False | Some s \<Rightarrow> s \<noteq> [])"

definition truthy_bool :: "bool option \<Rightarrow> bool" where
  "truthy_bool v = (case v of None \<Rightarrow> False | Some b \<Rightarrow> b)"

definition truthy_num :: "nat option \<Rightarrow> bool" where
  "truthy_num v = (case v of None \<Rightarrow> False | Some n \<Rightarrow> n \<noteq> 0)"

text \<open>A thrown fault. The only fault of this class is a property access on \<open>undefined\<close>.\<close>

datatype error = TypeError

text \<open>
  A method either returns normally with the state it reached (\<open>Inr\<close>), or throws; the
  mutations made before the throw stay, so the fault carries the state at the throw.
\<close>

type_synonym 's result = "(error \<times> 's) + 's"

definition final :: "'s result \<Rightarrow> 's" where
  "final r = (case r of Inl (e, s) \<Rightarrow> s | Inr s \<Rightarrow> s)"

definition returns :: "'s result \<Rightarrow> bool" where
  "returns r = (case r of Inl x \<Rightarrow> False | Inr s \<Rightarrow> True)"

text \<open>A block of statements: each runs in the state the previous one left; a throw ends the block.\<close>

fun run :: "('s \<Rightarrow> 's result) list \<Rightarrow> 's \<Rightarrow> 's result" where
  "run [] s = Inr s"
| "run (c # cs) s = (case c s of Inl x \<Rightarrow> Inl x | Inr s' \<Rightarrow> run cs s')"

text \<open>
  The template literal \<^verbatim>\<open>`${n}`\<close> of a number: its decimal digits. Each round writes
  the last digit and divides by ten, so \<open>n + 1\<close> rounds are more than the digits of \<open>n\<close>.
\<close>

fun digits :: "nat \<Rightarrow> nat \<Rightarrow> string" where
  "digits 0 n = []"
| "digits (Suc rounds) n =
     (if n < 10 then [char_of (48 + n)] else digits rounds (n div 10) @ [char_of (48 + n mod 10)])"

definition decimal :: "nat \<Rightarrow> string" where
  "decimal n = digits (Suc n) n"

section \<open>The menu item configuration\<close>

datatype item_type = Normal | Separator | Submenu | Checkbox | Radio

type_synonym handler = nat
type_synonym window = nat
type_synonym ref = nat
type_synonym event_ref = nat

text \<open>
  The fields of \<^verbatim>\<open>MenuItemConstructorOptions\<close> that the class reads. All are optional.
  A \<open>click\<close> handler is a function of the caller: the model knows it by an identity and
  records each invocation with its arguments; what the handler itself does is outside.
  An icon (a path or an image object) is represented by a string.
\<close>

record item_config =
  label :: "string option"
  sublabel :: "string option"
  icon :: "string option"
  accelerator :: "string option"
  type :: "item_type option"
  enabled :: "bool option"
  checked :: "bool option"
  click :: "handler option"

record menu_options =
  enableMnemonics :: "bool option"

text \<open>A colour is represented by the text its \<^verbatim>\<open>toString()\<close> gives; a colour object is truthy.\<close>

type_synonym color = string

record menu_style =
  foregroundColor :: "color option"
  backgroundColor :: "color option"
  selectionForegroundColor :: "color option"
  selectionBackgroundColor :: "color option"

section \<open>The document\<close>

datatype event_type = MOUSE_DOWN | CLICK | DBLCLICK | MOUSE_UP | MOUSE_OUT

text \<open>The four closures that \<open>render\<close> registers, by what they do.\<close>

datatype listener_body = ActivateOnPrimary | StopAndClick | StopOnly | Deactivate

datatype content = Markup string | PlainText string

record element =
  tag :: string
  classes :: "string list"
  attrs :: "string \<rightharpoonup> string"
  title :: string
  tabIndex :: "int option"
  style_decl :: "string \<rightharpoonup> string"
  content :: content
  parentNode :: "ref option"
  children :: "ref list"
  listeners :: "(event_type \<times> listener_body) list"

record dom_event =
  button :: int
  defaultPrevented :: bool
  propagationStopped :: bool

record click_call =
  c_handler :: handler
  c_item :: item_config
  c_window :: window
  c_event :: "event_ref option"

text \<open>
  Elements and events are objects shared by reference: the world holds a store of each,
  the next unused element reference, the element that has the focus, and the
  invocations of click handlers so far.
\<close>

record world =
  nodes :: "ref \<Rightarrow> element"
  fresh :: ref
  events :: "event_ref \<Rightarrow> dom_event"
  activeElement :: "ref option"
  clicks :: "click_call list"

definition blank :: "string \<Rightarrow> string list \<Rightarrow> element" where
  "blank t cs = \<lparr>tag = t, classes = cs, attrs = Map.empty, title = [], tabIndex = None,
     style_decl = Map.empty, content = Markup [], parentNode = None, children = [],
     listeners = []\<rparr>"

definition upd_el :: "ref \<Rightarrow> (element \<Rightarrow> element) \<Rightarrow> 'a world_scheme \<Rightarrow> 'a world_scheme" where
  "upd_el r f w = w\<lparr>nodes := (nodes w)(r := f (nodes w r))\<rparr>"

definition setAttribute :: "string \<Rightarrow> string \<Rightarrow> ref \<Rightarrow> 'a world_scheme \<Rightarrow> 'a world_scheme" where
  "setAttribute k v r = upd_el r (\<lambda>e. e\<lparr>attrs := (attrs e)(k \<mapsto> v)\<rparr>)"

definition set_title :: "string \<Rightarrow> ref \<Rightarrow> 'a world_scheme \<Rightarrow> 'a world_scheme" where
  "set_title t r = upd_el r (\<lambda>e. e\<lparr>title := t\<rparr>)"

definition set_tabIndex :: "int \<Rightarrow> ref \<Rightarrow> 'a world_scheme \<Rightarrow> 'a world_scheme" where
  "set_tabIndex i r = upd_el r (\<lambda>e. e\<lparr>tabIndex := Some i\<rparr>)"

text \<open>Assigning \<open>null\<close> to a property of an inline style removes the declaration.\<close>

definition set_style :: "string \<Rightarrow> string option \<Rightarrow> ref \<Rightarrow> 'a world_scheme \<Rightarrow> 'a world_scheme" where
  "set_style p v r = upd_el r (\<lambda>e. e\<lparr>style_decl := (style_decl e)(p := v)\<rparr>)"

definition set_innerHTML :: "string \<Rightarrow> ref \<Rightarrow> 'a world_scheme \<Rightarrow> 'a world_scheme" where
  "set_innerHTML h r = upd_el r (\<lambda>e. e\<lparr>content := Markup h\<rparr>)"

definition set_textContent :: "string \<Rightarrow> ref \<Rightarrow> 'a world_scheme \<Rightarrow> 'a world_scheme" where
  "set_textContent t r = upd_el r (\<lambda>e. e\<lparr>content := PlainText t\<rparr>)"


text \<open>
  The helper layer of \<^verbatim>\<open>../common/dom\<close> (element creation, class toggling, disposable
  event listeners) is not part of the sources at hand; each helper the class calls is
  modelled after the document object model.
\<close>

text \<open>Modelled from the spec: \<open>addClass\<close> of the helper layer (class toggling) adds a class, once.\<close>

definition addClass :: "string \<Rightarrow> ref \<Rightarrow> 'a world_scheme \<Rightarrow> 'a world_scheme" where
  "addClass c r = upd_el r (\<lambda>e. e\<lparr>classes := (if c \<in> set (classes e) then classes e else classes e @ [c])\<rparr>)"

text \<open>Modelled from the spec: \<open>removeClass\<close> of the helper layer (class toggling) removes a class.\<close>

definition removeClass :: "string \<Rightarrow> ref \<Rightarrow> 'a world_scheme \<Rightarrow> 'a world_scheme" where
  "removeClass c r = upd_el r (\<lambda>e. e\<lparr>classes := removeAll c (classes e)\<rparr>)"

text \<open>Modelled from the spec: \<open>hasClass\<close> of the helper layer tests whether an element has a class.\<close>

definition hasClass :: "string \<Rightarrow> ref \<Rightarrow> 'a world_scheme \<Rightarrow> bool" where
  "hasClass c r w = (c \<in> set (classes (nodes w r)))"

text \<open>
  Modelled from the spec: \<open>$\<close> of the helper layer (element creation) makes a new,
  detached element from a selector \<^verbatim>\<open>tag.class\<close>; the new element gets the next unused
  reference.
\<close>

definition create :: "string \<Rightarrow> string \<Rightarrow> 'a world_scheme \<Rightarrow> ref \<times> 'a world_scheme" where
  "create t c w = (fresh w, w\<lparr>nodes := (nodes w)(fresh w := blank t [c]), fresh := Suc (fresh w)\<rparr>)"

text \<open>
  Modelled from the spec: \<open>removeNode\<close> of the helper layer detaches a node from its
  parent, if it has one.
\<close>

definition removeNode :: "ref \<Rightarrow> 'a world_scheme \<Rightarrow> 'a world_scheme" where
  "removeNode r w =
     (case parentNode (nodes w r) of
        None \<Rightarrow> w
      | Some p \<Rightarrow>
          upd_el r (\<lambda>e. e\<lparr>parentNode := None\<rparr>)
            (upd_el p (\<lambda>e. e\<lparr>children := removeAll r (children e)\<rparr>) w))"

text \<open>
  Modelled from the spec: \<open>append\<close> of the helper layer makes a node the last child of a
  parent, taking it from where it was mounted before, and returns the node.
\<close>

definition append_node :: "ref \<Rightarrow> ref \<Rightarrow> 'a world_scheme \<Rightarrow> 'a world_scheme" where
  "append_node p c w =
     upd_el c (\<lambda>e. e\<lparr>parentNode := Some p\<rparr>)
       (upd_el p (\<lambda>e. e\<lparr>children := children e @ [c]\<rparr>) (removeNode c w))"

text \<open>The listeners of an element: one is added at the end, and removed by its type and body.\<close>

definition addEventListener :: "event_type \<Rightarrow> listener_body \<Rightarrow> ref \<Rightarrow> 'a world_scheme \<Rightarrow> 'a world_scheme" where
  "addEventListener t b r = upd_el r (\<lambda>e. e\<lparr>listeners := listeners e @ [(t, b)]\<rparr>)"

definition removeEventListener :: "event_type \<Rightarrow> listener_body \<Rightarrow> ref \<Rightarrow> 'a world_scheme \<Rightarrow> 'a world_scheme" where
  "removeEventListener t b r = upd_el r (\<lambda>e. e\<lparr>listeners := remove1 (t, b) (listeners e)\<rparr>)"

text \<open>
  Modelled from the spec: \<^verbatim>\<open>EventHelper.stop(e, cancelBubble)\<close> of the same helper layer
  prevents the default action of the event and, when \<open>cancelBubble\<close> is set, stops its
  propagation.
\<close>

definition EventHelper_stop :: "event_ref \<Rightarrow> bool \<Rightarrow> 'a world_scheme \<Rightarrow> 'a world_scheme" where
  "EventHelper_stop e cancelBubble w =
     w\<lparr>events := (events w)(e := (events w e)\<lparr>defaultPrevented := True,
          propagationStopped := (cancelBubble \<or> propagationStopped (events w e))\<rparr>)\<rparr>"

text \<open>
  The focus of the document: an element with a tab index takes the focus when asked,
  one without does not; an element that loses the focus leaves none focused.
\<close>

definition dom_focus :: "ref \<Rightarrow> 'a world_scheme \<Rightarrow> 'a world_scheme" where
  "dom_focus r w = (if tabIndex (nodes w r) = None then w else w\<lparr>activeElement := Some r\<rparr>)"

definition dom_blur :: "ref \<Rightarrow> 'a world_scheme \<Rightarrow> 'a world_scheme" where
  "dom_blur r w = (if activeElement w = Some r then w\<lparr>activeElement := None\<rparr> else w)"

section \<open>What the class imports\<close>

text \<open>
  The result of \<^verbatim>\<open>RegExp.exec\<close> on the mnemonic pattern: where the match starts, the
  matched text, and the two capture groups the class reads (\<^verbatim>\<open>matches[1]\<close>,
  \<^verbatim>\<open>matches[2]\<close>), each absent when its alternative did not take part.
\<close>

record regex_match =
  m_index :: nat
  m_text :: string
  m_group1 :: "string option"
  m_group2 :: "string option"

text \<open>
  The class imports its patterns and \<open>cleanMnemonic\<close> from \<^verbatim>\<open>./menu\<close> and the key codes
  from \<^verbatim>\<open>../common/keyCodes\<close>; neither is part of the sources at hand, and the case
  conversions depend on the locale. They are parameters:
  \<^item> \<open>MENU_MNEMONIC_REGEX\<close>: \<^verbatim>\<open>MENU_MNEMONIC_REGEX.exec(s)\<close>;
  \<^item> \<open>cleanMnemonic\<close>: the imported function;
  \<^item> \<open>replace_ESCAPED_MNEMONIC\<close>: \<^verbatim>\<open>s.replace(MENU_ESCAPED_MNEMONIC_REGEX, template)\<close>;
  \<^item> \<open>fromString\<close>: \<^verbatim>\<open>KeyCodeUtils.fromString\<close>, a key code being a number;
  \<^item> \<open>toLocaleUpperCase\<close>, \<open>toLocaleLowerCase\<close>, \<open>trim\<close>: the string methods.
\<close>

record menu_env =
  MENU_MNEMONIC_REGEX :: "string \<Rightarrow> regex_match option"
  cleanMnemonic :: "string \<Rightarrow> string"
  replace_ESCAPED_MNEMONIC :: "string \<Rightarrow> string \<Rightarrow> string"
  fromString :: "string \<Rightarrow> nat"
  toLocaleUpperCase :: "string \<Rightarrow> string"
  toLocaleLowerCase :: "string \<Rightarrow> string"
  trim :: "string \<Rightarrow> string"

text \<open>
  \<open>updateLabel\<close> calls \<open>escape\<close>, and the file neither imports nor defines that name
  (the menu bar exports a function of this name for HTML entities; the import list of
  the class does not bring it in). The name is therefore the global function \<open>escape\<close>
  of the host language: it keeps the letters, the digits and \<^verbatim>\<open>@*_+-./\<close>, and writes
  every other code unit below 256 as a percent sign and two upper-case hexadecimal
  digits. The characters of the model are such code units.
\<close>

definition unescaped :: string where
  "unescaped = ''ABCDEFGHIJKLMNOPQRSTUVWXYZabcdefghijklmnopqrstuvwxyz0123456789@*_+-./''"

definition hex_digit :: "nat \<Rightarrow> char" where
  "hex_digit n = ''0123456789ABCDEF'' ! (n mod 16)"

definition escape_unit :: "char \<Rightarrow> string" where
  "escape_unit c =
     (if c \<in> set unescaped then [c]
      else [CHR ''%'', hex_digit ((of_char c :: nat) div 16), hex_digit (of_char c)])"

definition escape :: "string \<Rightarrow> string" where
  "escape s = concat (map escape_unit s)"

text \<open>The expression \<^verbatim>\<open>!!matches[1] ? matches[1] : matches[2]\<close>.\<close>

definition mnemonic_group :: "regex_match \<Rightarrow> string option" where
  "mnemonic_group m = (if truthy_str (m_group1 m) then m_group1 m else m_group2 m)"

section \<open>The menu item\<close>

text \<open>
  The fields of the class. The element fields are \<open>undefined\<close> until \<open>render\<close> assigns
  them; \<open>mnemonic\<close> and \<open>menuStyle\<close> until the constructor and \<open>style\<close> do; \<open>event\<close> is
  declared and read, and no method assigns it. \<open>toDispose\<close> is the registration list of
  the base class. The instance extends the world it lives in.
\<close>

record menu_item = world +
  item :: item_config
  options :: menu_options
  menuStyle :: "menu_style option"
  container :: "ref option"
  itemElement :: "ref option"
  labelElement :: "ref option"
  checkElement :: "ref option"
  mnemonic :: "nat option"
  event :: "event_ref option"
  currentWindow :: window
  toDispose :: "(ref \<times> event_type \<times> listener_body) list"

text \<open>A statement on the element a field refers to: a \<open>TypeError\<close> when the field is \<open>undefined\<close>.\<close>

definition on_el :: "(menu_item \<Rightarrow> ref option) \<Rightarrow> (ref \<Rightarrow> menu_item \<Rightarrow> menu_item) \<Rightarrow> menu_item \<Rightarrow> menu_item result" where
  "on_el field stmt s = (case field s of None \<Rightarrow> Inl (TypeError, s) | Some r \<Rightarrow> Inr (stmt r s))"

text \<open>
  The constructor: \<open>w\<close> is the world the instance is created in and \<open>win\<close> the window
  that \<^verbatim>\<open>remote.getCurrentWindow()\<close> returns. The mnemonic is derived when the label
  is truthy and mnemonics are enabled; \<^verbatim>\<open>toLocaleUpperCase\<close> on an absent group throws.
\<close>

definition new_MenuItem :: "menu_env \<Rightarrow> item_config \<Rightarrow> menu_options \<Rightarrow> window \<Rightarrow> world \<Rightarrow> menu_item result" where
  "new_MenuItem env it opts win w =
     (let this = \<lparr>nodes = nodes w, fresh = fresh w, events = events w,
                   activeElement = activeElement w, clicks = clicks w,
                   item = it, options = opts, menuStyle = None, container = None,
                   itemElement = None, labelElement = None, checkElement = None,
                   mnemonic = None, event = None, currentWindow = win, toDispose = []\<rparr>
      in if truthy_str (label it) \<and> truthy_bool (enableMnemonics opts) then
           (case label it of
              None \<Rightarrow> Inr this
            | Some lbl \<Rightarrow>
                if lbl \<noteq> [] then
                  (case MENU_MNEMONIC_REGEX env lbl of
                     None \<Rightarrow> Inr this
                   | Some matches \<Rightarrow>
                       (case mnemonic_group matches of
                          None \<Rightarrow> Inl (TypeError, this)
                        | Some g \<Rightarrow> Inr (this\<lparr>mnemonic := Some (fromString env (toLocaleUpperCase env g))\<rparr>)))
                else Inr this)
         else Inr this)"

definition getContainer :: "menu_item \<Rightarrow> ref option" where
  "getContainer s = container s"

definition getItem :: "menu_item \<Rightarrow> item_config" where
  "getItem s = item s"

definition isEnabled :: "menu_item \<Rightarrow> bool option" where
  "isEnabled s = enabled (item s)"

definition getMnemonic :: "menu_item \<Rightarrow> nat option" where
  "getMnemonic s = mnemonic s"


text \<open>
  \<open>updateLabel\<close>. The inner test of the label repeats the outer one. The accessible
  label is computed from the raw label before the label is replaced by its clean form
  when mnemonics are off; the pattern is then matched against the label that is left.
\<close>

definition updateLabel :: "menu_env \<Rightarrow> menu_item \<Rightarrow> menu_item result" where
  "updateLabel env s =
     (if truthy_str (label (item s)) then
        (case label (item s) of
           None \<Rightarrow> Inr s
         | Some l0 \<Rightarrow>
             if l0 \<noteq> [] then
               (let cleanLabel = cleanMnemonic env l0;
                    lbl = (if \<not> truthy_bool (enableMnemonics (options s)) then cleanLabel else l0)
                in run
                     [on_el labelElement (setAttribute ''aria-label'' cleanLabel),
                      (\<lambda>s. case MENU_MNEMONIC_REGEX env lbl of
                              None \<Rightarrow> on_el labelElement (set_innerHTML (trim env lbl)) s
                            | Some matches \<Rightarrow>
                                run
                                  [(\<lambda>s. case itemElement s of
                                           None \<Rightarrow> Inl (TypeError, s)
                                         | Some ie \<Rightarrow>
                                             (case mnemonic_group matches of
                                                None \<Rightarrow> Inl (TypeError, s)
                                              | Some g \<Rightarrow>
                                                  Inr (setAttribute ''aria-keyshortcuts''
                                                         (toLocaleLowerCase env g) ie s))),
                                   on_el labelElement
                                     (set_innerHTML
                                        (trim env
                                           (replace_ESCAPED_MNEMONIC env (escape lbl)
                                              ''<u aria-hidden=\"true\">$1</u>'')))] s)] s)
             else on_el labelElement (set_innerHTML (trim env l0)) s)
      else Inr s)"

text \<open>
  \<open>updateTooltip\<close>. The second condition is written as the source has it: the label
  is required to be falsy and truthy at once.
\<close>

definition tooltip_title :: "item_config \<Rightarrow> string option" where
  "tooltip_title it =
     (if truthy_str (sublabel it) then sublabel it
      else if \<not> truthy_str (label it) \<and> truthy_str (label it) \<and> truthy_str (icon it) then
        (if truthy_str (accelerator it) then accelerator it else label it)
      else None)"

definition updateTooltip :: "menu_item \<Rightarrow> menu_item result" where
  "updateTooltip s =
     (case tooltip_title (item s) of
        None \<Rightarrow> Inr s
      | Some t \<Rightarrow> if t \<noteq> [] then on_el itemElement (set_title t) s else Inr s)"

definition updateEnabled :: "menu_item \<Rightarrow> menu_item result" where
  "updateEnabled s =
     (if truthy_bool (enabled (item s)) \<and> type (item s) \<noteq> Some Separator then
        run [on_el container (removeClass ''disabled''), on_el container (set_tabIndex 0)] s
      else on_el container (addClass ''disabled'') s)"

definition updateChecked :: "menu_item \<Rightarrow> menu_item result" where
  "updateChecked s =
     (if truthy_bool (checked (item s)) then
        run [on_el itemElement (addClass ''checked''),
             on_el itemElement (setAttribute ''role'' ''menuitemcheckbox''),
             on_el itemElement (setAttribute ''aria-checked'' ''true'')] s
      else
        run [on_el itemElement (removeClass ''checked''),
             on_el itemElement (setAttribute ''role'' ''menuitem''),
             on_el itemElement (setAttribute ''aria-checked'' ''false'')] s)"

definition isSelected :: "menu_item \<Rightarrow> bool" where
  "isSelected s = (case container s of None \<Rightarrow> False | Some c \<Rightarrow> hasClass ''focused'' c s)"

definition fgColor :: "bool \<Rightarrow> menu_style \<Rightarrow> color option" where
  "fgColor sel st =
     (if sel \<and> selectionForegroundColor st \<noteq> None then selectionForegroundColor st
      else foregroundColor st)"

definition bgColor :: "bool \<Rightarrow> menu_style \<Rightarrow> color option" where
  "bgColor sel st =
     (if sel \<and> selectionBackgroundColor st \<noteq> None then selectionBackgroundColor st
      else backgroundColor st)"

definition applyStyle :: "menu_item \<Rightarrow> menu_item result" where
  "applyStyle s =
     (case menuStyle s of
        None \<Rightarrow> Inr s
      | Some st \<Rightarrow>
          run [on_el checkElement (set_style ''backgroundColor'' (fgColor (isSelected s) st)),
               on_el itemElement (set_style ''color'' (fgColor (isSelected s) st)),
               on_el itemElement (set_style ''backgroundColor'' (bgColor (isSelected s) st))] s)"

definition style :: "menu_style \<Rightarrow> menu_item \<Rightarrow> menu_item result" where
  "style st s = applyStyle (s\<lparr>menuStyle := Some st\<rparr>)"

definition focus :: "menu_item \<Rightarrow> menu_item result" where
  "focus s =
     applyStyle (case container s of None \<Rightarrow> s | Some c \<Rightarrow> addClass ''focused'' c (dom_focus c s))"

definition blur :: "menu_item \<Rightarrow> menu_item result" where
  "blur s =
     applyStyle (case container s of None \<Rightarrow> s | Some c \<Rightarrow> removeClass ''focused'' c (dom_blur c s))"

text \<open>
  \<open>onClick\<close>. The handler is called with the item, the window and the field \<open>event\<close> of
  the instance; the parameter of \<open>onClick\<close> is only stopped.
\<close>

definition onClick :: "event_ref \<Rightarrow> menu_item \<Rightarrow> menu_item result" where
  "onClick ev s =
     run [(\<lambda>s. Inr (EventHelper_stop ev True s)),
          (\<lambda>s. case click (item s) of
                  None \<Rightarrow> Inr s
                | Some h \<Rightarrow>
                    Inr (s\<lparr>clicks := clicks s @
                           [\<lparr>c_handler = h, c_item = item s, c_window = currentWindow s,
                             c_event = event s\<rparr>]\<rparr>)),
          (\<lambda>s. if type (item s) = Some Checkbox then
                  run [(\<lambda>s. Inr (s\<lparr>item := (item s)\<lparr>checked := Some (\<not> truthy_bool (checked (item s)))\<rparr>\<rparr>)),
                       updateChecked] s
                else Inr s)] s"

text \<open>What each listener registered by \<open>render\<close> does with an event.\<close>

definition listener_run :: "listener_body \<Rightarrow> event_ref \<Rightarrow> menu_item \<Rightarrow> menu_item result" where
  "listener_run b e s =
     (case b of
        ActivateOnPrimary \<Rightarrow>
          (if truthy_bool (enabled (item s)) \<and> button (events s e) = 0 \<and> container s \<noteq> None then
             on_el container (addClass ''active'') s
           else Inr s)
      | StopAndClick \<Rightarrow> run [(\<lambda>s. Inr (EventHelper_stop e True s)), onClick e] s
      | StopOnly \<Rightarrow> Inr (EventHelper_stop e True s)
      | Deactivate \<Rightarrow>
          run [(\<lambda>s. Inr (EventHelper_stop e False s)), on_el container (removeClass ''active'')] s)"

text \<open>An event of type \<open>t\<close> on element \<open>r\<close>: the listeners registered there for \<open>t\<close> run in order.\<close>

definition dispatch :: "event_type \<Rightarrow> ref \<Rightarrow> event_ref \<Rightarrow> menu_item \<Rightarrow> menu_item result" where
  "dispatch t r e s =
     run (map (\<lambda>tb. listener_run (snd tb) e) (filter (\<lambda>tb. fst tb = t) (listeners (nodes s r)))) s"

text \<open>
  Modelled from the spec: \<^verbatim>\<open>addDisposableListener\<close> of the helper layer and \<open>_register\<close>
  of the base class \<^verbatim>\<open>Disposable\<close> (\<^verbatim>\<open>../common/lifecycle\<close>) are not part of the sources
  at hand. The first adds a listener to an element and gives a registration that removes
  it on release; the second adds the registration to the list the base class owns.
\<close>

definition register :: "event_type \<Rightarrow> listener_body \<Rightarrow> ref \<Rightarrow> menu_item \<Rightarrow> menu_item" where
  "register t b r s = (addEventListener t b r s)\<lparr>toDispose := toDispose s @ [(r, t, b)]\<rparr>"


text \<open>
  \<open>render\<close>, statement by statement in the order of the source: the container is
  stored, the five listeners are registered on it, the row, the check indicator and the
  label are created and mounted, the accelerator text is mounted when the label and the
  accelerator are both truthy, and the four refreshes run.
\<close>

definition render :: "menu_env \<Rightarrow> ref \<Rightarrow> menu_item \<Rightarrow> menu_item result" where
  "render env c =
     run [(\<lambda>s. Inr (s\<lparr>container := Some c\<rparr>)),
          on_el container (register MOUSE_DOWN ActivateOnPrimary),
          on_el container (register CLICK StopAndClick),
          on_el container (register DBLCLICK StopOnly),
          on_el container (register MOUSE_UP Deactivate),
          on_el container (register MOUSE_OUT Deactivate),
          on_el container
            (\<lambda>p s. case create ''a'' ''action-menu-item'' s of
                      (ie, s') \<Rightarrow> (append_node p ie s')\<lparr>itemElement := Some ie\<rparr>),
          on_el itemElement (setAttribute ''role'' ''menuitem''),
          (\<lambda>s. if truthy_num (mnemonic s) then
                  (case mnemonic s of
                     None \<Rightarrow> Inr s
                   | Some k \<Rightarrow> on_el itemElement (setAttribute ''aria-keyshortcuts'' (decimal k)) s)
                else Inr s),
          on_el itemElement
            (\<lambda>p s. case create ''span'' ''menu-item-check'' s of
                      (ce, s') \<Rightarrow> (append_node p ce s')\<lparr>checkElement := Some ce\<rparr>),
          on_el checkElement (setAttribute ''role'' ''none''),
          on_el itemElement
            (\<lambda>p s. case create ''span'' ''action-label'' s of
                      (le, s') \<Rightarrow> (append_node p le s')\<lparr>labelElement := Some le\<rparr>),
          (\<lambda>s. if truthy_str (label (item s)) \<and> truthy_str (accelerator (item s)) then
                  (case accelerator (item s) of
                     None \<Rightarrow> Inr s
                   | Some a \<Rightarrow>
                       on_el itemElement
                         (\<lambda>p s. case create ''span'' ''keybinding'' s of
                                   (ke, s') \<Rightarrow> set_textContent a ke (append_node p ke s')) s)
                else Inr s),
          updateLabel env,
          updateTooltip,
          updateEnabled,
          updateChecked]"



section \<open>A concrete environment\<close>

text \<open>
  Modelled from the spec: \<^verbatim>\<open>MENU_MNEMONIC_REGEX\<close> is not part of the sources at hand. The
  mnemonic marker pattern is "an ampersand-escaped or double-ampersand-escaped character":
  the scan stops at the first ampersand that a character follows; after a single
  ampersand the character is the first group, after a double one the second.
\<close>

fun mnemonic_scan :: "nat \<Rightarrow> string \<Rightarrow> regex_match option" where
  "mnemonic_scan i (a # b # cs) =
     (if a = CHR ''&'' then
        (if b = CHR ''&'' then
           (case cs of
              [] \<Rightarrow> Some \<lparr>m_index = i, m_text = [a, b], m_group1 = Some [b], m_group2 = None\<rparr>
            | c # cs' \<Rightarrow> Some \<lparr>m_index = i, m_text = [a, b, c], m_group1 = None, m_group2 = Some [c]\<rparr>)
         else Some \<lparr>m_index = i, m_text = [a, b], m_group1 = Some [b], m_group2 = None\<rparr>)
      else mnemonic_scan (Suc i) (b # cs))"
| "mnemonic_scan i cs = None"

text \<open>
  Modelled from the spec: \<^verbatim>\<open>cleanMnemonic\<close> is not part of the sources at hand. It gives
  "the label with the marker removed": the first marker is replaced by the character it
  marks; a label without a marker is returned as it is.
\<close>

definition cleanMnemonic_spec :: "string \<Rightarrow> string" where
  "cleanMnemonic_spec s =
     (case mnemonic_scan 0 s of
        None \<Rightarrow> s
      | Some m \<Rightarrow>
          take (m_index m) s @
          (case mnemonic_group m of None \<Rightarrow> [] | Some g \<Rightarrow> g) @
          drop (m_index m + length (m_text m)) s)"

text \<open>
  Modelled from the spec: \<^verbatim>\<open>MENU_ESCAPED_MNEMONIC_REGEX\<close> is not part of the sources at hand.
  It is the marker pattern on HTML-escaped text, where an ampersand reads \<^verbatim>\<open>&amp;\<close>:
  the scan gives the start of the first escaped marker, its length and the character it
  marks.
\<close>

fun escaped_scan :: "nat \<Rightarrow> string \<Rightarrow> (nat \<times> nat \<times> string) option" where
  "escaped_scan i [] = None"
| "escaped_scan i (a # cs) =
     (if take 5 (a # cs) = ''&amp;'' then
        (if take 5 (drop 5 (a # cs)) = ''&amp;'' then
           (case drop 10 (a # cs) of
              [] \<Rightarrow> Some (i, 6, ''&'')
            | c # cs' \<Rightarrow> Some (i, 11, [c]))
         else
           (case drop 5 (a # cs) of
              [] \<Rightarrow> escaped_scan (Suc i) cs
            | c # cs' \<Rightarrow> Some (i, 6, [c])))
      else escaped_scan (Suc i) cs)"

text \<open>A replacement template: each \<^verbatim>\<open>$1\<close> stands for the first group.\<close>

fun expand :: "string \<Rightarrow> string \<Rightarrow> string" where
  "expand (a # b # t) g =
     (if a = CHR ''$'' \<and> b = CHR ''1'' then g @ expand t g else a # expand (b # t) g)"
| "expand t g = t"

definition replace_escaped_spec :: "string \<Rightarrow> string \<Rightarrow> string" where
  "replace_escaped_spec s template =
     (case escaped_scan 0 s of
        None \<Rightarrow> s
      | Some (i, n, g) \<Rightarrow> take i s @ expand template g @ drop (i + n) s)"

text \<open>
  Modelled from the spec: the numbering of key codes (\<^verbatim>\<open>../common/keyCodes\<close>) is not part
  of the sources at hand. The mnemonic key of a one-character string is numbered by the
  code of the character; any other string is the unknown key, zero.
\<close>

definition fromString_spec :: "string \<Rightarrow> nat" where
  "fromString_spec s = (case s of [c] \<Rightarrow> of_char c | _ \<Rightarrow> 0)"

text \<open>The string methods, on the letters and the white space of ASCII.\<close>

definition upper_char :: "char \<Rightarrow> char" where
  "upper_char c =
     (case map_of (zip ''abcdefghijklmnopqrstuvwxyz'' ''ABCDEFGHIJKLMNOPQRSTUVWXYZ'') c of
        None \<Rightarrow> c
      | Some d \<Rightarrow> d)"

definition lower_char :: "char \<Rightarrow> char" where
  "lower_char c =
     (case map_of (zip ''ABCDEFGHIJKLMNOPQRSTUVWXYZ'' ''abcdefghijklmnopqrstuvwxyz'') c of
        None \<Rightarrow> c
      | Some d \<Rightarrow> d)"

definition is_space :: "char \<Rightarrow> bool" where
  "is_space c = (c \<in> set [CHR '' '', CHR 0x09, CHR 0x0A, CHR 0x0B, CHR 0x0C, CHR 0x0D])"

definition trim_ascii :: "string \<Rightarrow> string" where
  "trim_ascii s = rev (dropWhile is_space (rev (dropWhile is_space s)))"

definition env0 :: menu_env where
  "env0 = \<lparr>MENU_MNEMONIC_REGEX = mnemonic_scan 0, cleanMnemonic = cleanMnemonic_spec,
     replace_ESCAPED_MNEMONIC = replace_escaped_spec,
     fromString = fromString_spec, toLocaleUpperCase = map upper_char,
     toLocaleLowerCase = map lower_char, trim = trim_ascii\<rparr>"

section \<open>Concrete items\<close>

text \<open>
  A page with one list element, number 0, to render into, and events that a primary
  button raised.
\<close>

definition world0 :: world where
  "world0 = \<lparr>nodes = (\<lambda>r. blank ''li'' []), fresh = 1,
     events = (\<lambda>e. \<lparr>button = 0, defaultPrevented = False, propagationStopped = False\<rparr>),
     activeElement = None, clicks = []\<rparr>"

definition file_config :: item_config where
  "file_config = \<lparr>label = Some ''&File'', sublabel = None, icon = None, accelerator = None,
     type = Some Submenu, enabled = Some True, checked = None, click = Some 7\<rparr>"

definition wrap_config :: item_config where
  "wrap_config = \<lparr>label = Some ''Word &Wrap'', sublabel = Some ''Toggle wrapping'', icon = None,
     accelerator = Some ''Alt+Z'', type = Some Checkbox, enabled = Some False,
     checked = Some False, click = Some 7\<rparr>"

definition icon_config :: item_config where
  "icon_config = \<lparr>label = None, sublabel = None, icon = Some ''save.png'',
     accelerator = Some ''Ctrl+S'', type = Some Normal, enabled = Some True, checked = None,
     click = None\<rparr>"

definition separator_config :: item_config where
  "separator_config = \<lparr>label = None, sublabel = None, icon = None, accelerator = None,
     type = Some Separator, enabled = Some True, checked = None, click = None\<rparr>"

definition mnemonics_on :: menu_options where
  "mnemonics_on = \<lparr>enableMnemonics = Some True\<rparr>"

definition mnemonics_off :: menu_options where
  "mnemonics_off = \<lparr>enableMnemonics = None\<rparr>"

definition plain_config :: item_config where
  "plain_config = \<lparr>label = Some ''Quit'', sublabel = None, icon = None, accelerator = None,
     type = Some Normal, enabled = Some True, checked = None, click = None\<rparr>"

definition double_config :: item_config where
  "double_config = \<lparr>label = Some ''&&x'', sublabel = None, icon = None, accelerator = None,
     type = Some Normal, enabled = Some True, checked = None, click = None\<rparr>"

definition red_style :: menu_style where
  "red_style = \<lparr>foregroundColor = Some ''#111'', backgroundColor = Some ''#eee'',
     selectionForegroundColor = Some ''#fff'', selectionBackgroundColor = None\<rparr>"

definition bare_style :: menu_style where
  "bare_style = \<lparr>foregroundColor = None, backgroundColor = None,
     selectionForegroundColor = None, selectionBackgroundColor = None\<rparr>"

text \<open>An item constructed in \<open>world0\<close> for window 1 and rendered into element 0.\<close>

definition rendered :: "item_config \<Rightarrow> menu_options \<Rightarrow> menu_item" where
  "rendered it opts = final (render env0 0 (final (new_MenuItem env0 it opts 1 world0)))"

definition file_item :: menu_item where
  "file_item = rendered file_config mnemonics_on"

definition file_item_plain :: menu_item where
  "file_item_plain = rendered file_config mnemonics_off"

definition wrap_item :: menu_item where
  "wrap_item = rendered wrap_config mnemonics_on"

definition icon_item :: menu_item where
  "icon_item = rendered icon_config mnemonics_on"

definition separator_item :: menu_item where
  "separator_item = rendered separator_config mnemonics_on"


section \<open>Evaluating the concrete items\<close>

lemmas dom_defs = upd_el_def setAttribute_def set_title_def set_tabIndex_def set_style_def
  set_innerHTML_def set_textContent_def addClass_def removeClass_def hasClass_def create_def
  removeNode_def append_node_def addEventListener_def removeEventListener_def
  EventHelper_stop_def blank_def dom_focus_def dom_blur_def

lemmas js_defs = Let_def truthy_str_def truthy_bool_def truthy_num_def final_def returns_def
  on_el_def mnemonic_group_def

lemmas env_defs = env0_def cleanMnemonic_spec_def escape_def escape_unit_def unescaped_def
  hex_digit_def replace_escaped_spec_def fromString_spec_def upper_char_def lower_char_def is_space_def
  trim_ascii_def

lemmas cfg_defs = world0_def file_config_def wrap_config_def icon_config_def
  separator_config_def plain_config_def double_config_def mnemonics_on_def mnemonics_off_def
  rendered_def file_item_def file_item_plain_def wrap_item_def icon_item_def
  separator_item_def red_style_def bare_style_def

lemmas meth_defs = new_MenuItem_def updateLabel_def tooltip_title_def updateTooltip_def
  updateEnabled_def updateChecked_def register_def render_def

lemmas eval_defs = dom_defs js_defs env_defs cfg_defs meth_defs

lemma file_item_fields:
  "item file_item = file_config" "options file_item = mnemonics_on"
  "container file_item = Some 0" "itemElement file_item = Some 1"
  "checkElement file_item = Some 2" "labelElement file_item = Some 3"
  by (simp_all add: eval_defs)

lemma wrap_item_fields:
  "item wrap_item = wrap_config" "container wrap_item = Some 0"
  "itemElement wrap_item = Some 1" "checkElement wrap_item = Some 2"
  "labelElement wrap_item = Some 3" "event wrap_item = None"
  "currentWindow wrap_item = 1" "clicks wrap_item = []"
  by (simp_all add: eval_defs)

lemma separator_item_fields:
  "item separator_item = separator_config" "container separator_item = Some 0"
  "itemElement separator_item = Some 1"
  by (simp_all add: eval_defs)

lemma icon_item_fields:
  "item icon_item = icon_config" "itemElement icon_item = Some 1"
  "title (nodes icon_item 1) = []"
  by (simp_all add: eval_defs)

text \<open>The digits of a key code, as \<open>render\<close> writes them before the label is refreshed.\<close>

lemma decimal_70: "decimal 70 = ''70''"
  by code_simp

section \<open>The label\<close>

text \<open>
  C1. For a menu item whose label contains a mnemonic marker and whose options enable
  mnemonics, \<open>updateLabel\<close> returns, the accessible label (\<open>aria-label\<close> of the label
  element) is the raw label cleaned of its marker, and \<open>aria-keyshortcuts\<close> of the row
  holds the marked character in lower case. The marker is a match of the pattern on the
  raw label that captured a character.
\<close>

theorem updateLabel_mnemonic:
  assumes "truthy_bool (enableMnemonics (options s))"
    and "label (item s) = Some l" and "l \<noteq> []"
    and "MENU_MNEMONIC_REGEX env l = Some m" and "mnemonic_group m = Some g"
    and "labelElement s = Some le" and "itemElement s = Some ie"
  shows "returns (updateLabel env s)
       \<and> attrs (nodes (final (updateLabel env s)) le) ''aria-label'' = Some (cleanMnemonic env l)
       \<and> attrs (nodes (final (updateLabel env s)) ie) ''aria-keyshortcuts'' = Some (toLocaleLowerCase env g)"
  using assms
  by (simp add: updateLabel_def truthy_str_def on_el_def final_def returns_def Let_def
      setAttribute_def set_innerHTML_def upd_el_def)

text \<open>
  The item \<^verbatim>\<open>{label: "&File"}\<close> with mnemonics enabled: the accessible label is
  \<^verbatim>\<open>File\<close> and the shortcut hint is \<^verbatim>\<open>f\<close>.
\<close>

theorem updateLabel_mnemonic_witness:
  "truthy_bool (enableMnemonics (options file_item))
   \<and> label (item file_item) = Some ''&File''
   \<and> MENU_MNEMONIC_REGEX env0 ''&File'' =
        Some \<lparr>m_index = 0, m_text = ''&F'', m_group1 = Some ''F'', m_group2 = None\<rparr>
   \<and> labelElement file_item = Some 3 \<and> itemElement file_item = Some 1
   \<and> returns (updateLabel env0 file_item)
   \<and> attrs (nodes (final (updateLabel env0 file_item)) 3) ''aria-label'' = Some ''File''
   \<and> attrs (nodes (final (updateLabel env0 file_item)) 1) ''aria-keyshortcuts'' = Some ''f''"
proof -
  let ?m = "\<lparr>m_index = 0, m_text = ''&F'', m_group1 = Some ''F'', m_group2 = None\<rparr>"
  have on: "truthy_bool (enableMnemonics (options file_item))"
    by (simp add: file_item_fields mnemonics_on_def truthy_bool_def)
  have lbl: "label (item file_item) = Some ''&File''"
    by (simp add: file_item_fields file_config_def)
  have m: "MENU_MNEMONIC_REGEX env0 ''&File'' = Some ?m"
    by (simp add: env0_def)
  have g: "mnemonic_group ?m = Some ''F''"
    by (simp add: mnemonic_group_def truthy_str_def)
  have ne: "''&File'' \<noteq> []"
    by simp
  note inst = updateLabel_mnemonic [OF on lbl ne m g file_item_fields(6) file_item_fields(4)]
  have e1: "cleanMnemonic env0 ''&File'' = ''File''"
    by (simp add: env_defs mnemonic_group_def truthy_str_def)
  have e2: "toLocaleLowerCase env0 ''F'' = ''f''"
    by (simp add: env_defs)
  show ?thesis
    using on lbl m file_item_fields(6) file_item_fields(4) inst
    by (simp add: e1 e2)
qed

text \<open>
  The same item with the default options, where mnemonics are not enabled: the label has
  a marker, and after \<open>updateLabel\<close> the markup is the clean label, without underline,
  and the row has no \<open>aria-keyshortcuts\<close>.
\<close>

theorem updateLabel_mnemonics_off_counterexample:
  "label (item file_item_plain) = Some ''&File''
   \<and> MENU_MNEMONIC_REGEX env0 ''&File'' =
        Some \<lparr>m_index = 0, m_text = ''&F'', m_group1 = Some ''F'', m_group2 = None\<rparr>
   \<and> labelElement file_item_plain = Some 3 \<and> itemElement file_item_plain = Some 1
   \<and> returns (updateLabel env0 file_item_plain)
   \<and> content (nodes (final (updateLabel env0 file_item_plain)) 3) = Markup ''File''
   \<and> attrs (nodes (final (updateLabel env0 file_item_plain)) 1) ''aria-keyshortcuts'' = None"
  by (simp add: eval_defs)

text \<open>
  The markup of the label with mnemonics enabled. It is the trimmed result of the
  replacement on \<open>escape\<close> of the label; \<open>escape\<close> being the global function, the label is
  percent-encoded, and a pattern that looks for the entity \<^verbatim>\<open>&amp;\<close> finds no marker in it.
\<close>

lemma updateLabel_markup:
  assumes "truthy_bool (enableMnemonics (options s))"
    and "label (item s) = Some l" and "l \<noteq> []"
    and "MENU_MNEMONIC_REGEX env l = Some m" and "mnemonic_group m = Some g"
    and "labelElement s = Some le" and "itemElement s = Some ie"
  shows "content (nodes (final (updateLabel env s)) le) =
           Markup (trim env (replace_ESCAPED_MNEMONIC env (escape l) ''<u aria-hidden=\"true\">$1</u>''))"
  using assms
  by (simp add: updateLabel_def truthy_str_def on_el_def final_def returns_def Let_def
      setAttribute_def set_innerHTML_def upd_el_def)

lemma escape_examples:
  "escape ''&File'' = ''%26File''"
  "escape ''Word &Wrap'' = ''Word%20%26Wrap''"
  "escape ''<b>'' = ''%3Cb%3E''"
  by (simp_all add: escape_def escape_unit_def unescaped_def hex_digit_def)

lemma rendered_markup_percent_encoded:
  "content (nodes file_item 3) = Markup ''%26File''"
  "content (nodes wrap_item 3) = Markup ''Word%20%26Wrap''"
  by (simp_all add: eval_defs)

section \<open>The tooltip\<close>

text \<open>
  C2. The fallback of \<open>updateTooltip\<close> is dead: the item without label and sublabel, with
  an icon and the accelerator \<^verbatim>\<open>Ctrl+S\<close>, gets no computed title, and \<open>updateTooltip\<close>
  leaves the title of the rendered row empty instead of setting the accelerator text.
\<close>

theorem tooltip_fallback_never_taken:
  "label icon_config = None \<and> sublabel icon_config = None
   \<and> icon icon_config = Some ''save.png'' \<and> accelerator icon_config = Some ''Ctrl+S''
   \<and> tooltip_title icon_config = None
   \<and> itemElement icon_item = Some 1
   \<and> updateTooltip icon_item = Inr icon_item
   \<and> title (nodes (final (updateTooltip icon_item)) 1) = []"
proof -
  have a: "tooltip_title icon_config = None"
    by (simp add: tooltip_title_def icon_config_def truthy_str_def)
  then have b: "updateTooltip icon_item = Inr icon_item"
    by (simp add: updateTooltip_def icon_item_fields)
  show ?thesis using a b icon_item_fields(2,3)
    by (simp add: final_def icon_config_def)
qed

text \<open>
  C10. When the sublabel is falsy the computed title is \<open>null\<close>, and \<open>updateTooltip\<close>
  returns the state as it was: the title of the row, like everything else, is unchanged.
\<close>

theorem updateTooltip_keeps_title:
  assumes "\<not> truthy_str (sublabel (item s))"
  shows "tooltip_title (item s) = None \<and> updateTooltip s = Inr s"
  using assms by (auto simp: tooltip_title_def updateTooltip_def)

text \<open>
  The checkbox item was rendered with the sublabel \<^verbatim>\<open>Toggle wrapping\<close> as its tooltip;
  with the sublabel removed from the config, \<open>updateTooltip\<close> keeps that tooltip.
\<close>

theorem updateTooltip_keeps_title_witness:
  "title (nodes wrap_item 1) = ''Toggle wrapping''
   \<and> \<not> truthy_str (sublabel (item (wrap_item\<lparr>item := wrap_config\<lparr>sublabel := None\<rparr>\<rparr>)))
   \<and> updateTooltip (wrap_item\<lparr>item := wrap_config\<lparr>sublabel := None\<rparr>\<rparr>)
       = Inr (wrap_item\<lparr>item := wrap_config\<lparr>sublabel := None\<rparr>\<rparr>)
   \<and> title (nodes (final (updateTooltip (wrap_item\<lparr>item := wrap_config\<lparr>sublabel := None\<rparr>\<rparr>))) 1)
       = ''Toggle wrapping''"
proof -
  let ?s = "wrap_item\<lparr>item := wrap_config\<lparr>sublabel := None\<rparr>\<rparr>"
  have h: "\<not> truthy_str (sublabel (item ?s))"
    by (simp add: truthy_str_def)
  have t: "title (nodes wrap_item 1) = ''Toggle wrapping''"
    by (simp add: eval_defs)
  from updateTooltip_keeps_title [OF h] have u: "updateTooltip ?s = Inr ?s"
    by simp
  show ?thesis using h t u by (simp add: final_def)
qed

section \<open>Clicks\<close>

text \<open>
  C3. The handler of a rendered item with the click handler 7 in window 1: \<open>onClick\<close> on
  event 5 returns and stops the propagation of the event, and the handler is invoked
  with the item and the window; its third argument is the field \<open>event\<close>, which nothing
  assigns, and not the event 5 that \<open>onClick\<close> received.
\<close>

theorem onClick_passes_unset_event:
  "click (item file_item) = Some 7
   \<and> returns (onClick 5 file_item)
   \<and> propagationStopped (events (final (onClick 5 file_item)) 5)
   \<and> clicks (final (onClick 5 file_item))
       = [\<lparr>c_handler = 7, c_item = file_config, c_window = 1, c_event = None\<rparr>]"
  by (simp add: eval_defs onClick_def)

lemma updateChecked_rendered:
  assumes "itemElement s = Some ie"
  shows "updateChecked s =
     Inr (if truthy_bool (checked (item s)) then
            setAttribute ''aria-checked'' ''true'' ie
              (setAttribute ''role'' ''menuitemcheckbox'' ie (addClass ''checked'' ie s))
          else
            setAttribute ''aria-checked'' ''false'' ie
              (setAttribute ''role'' ''menuitem'' ie (removeClass ''checked'' ie s)))"
  using assms
  by (simp add: updateChecked_def on_el_def setAttribute_def addClass_def removeClass_def upd_el_def)

text \<open>
  C4. For a rendered item of type checkbox, one call of \<open>onClick\<close> returns and leaves the
  checked flag the negation of what it was; the row then has the role
  \<open>menuitemcheckbox\<close>, \<open>aria-checked\<close> \<open>true\<close> and the class \<open>checked\<close> when the flag is
  now set, and the role \<open>menuitem\<close>, \<open>aria-checked\<close> \<open>false\<close> and no class \<open>checked\<close>
  when it is not.
\<close>

theorem onClick_checkbox_toggles_once:
  assumes "type (item s) = Some Checkbox" and "itemElement s = Some ie"
  shows "returns (onClick ev s)
       \<and> checked (item (final (onClick ev s))) = Some (\<not> truthy_bool (checked (item s)))
       \<and> attrs (nodes (final (onClick ev s)) ie) ''role'' =
            Some (if truthy_bool (checked (item s)) then ''menuitem'' else ''menuitemcheckbox'')
       \<and> attrs (nodes (final (onClick ev s)) ie) ''aria-checked'' =
            Some (if truthy_bool (checked (item s)) then ''false'' else ''true'')
       \<and> (''checked'' \<in> set (classes (nodes (final (onClick ev s)) ie))) = (\<not> truthy_bool (checked (item s)))"
  using assms
  by (auto simp: onClick_def updateChecked_rendered EventHelper_stop_def final_def returns_def
      truthy_bool_def setAttribute_def addClass_def removeClass_def upd_el_def
      split: option.splits)

text \<open>The unchecked checkbox item is checked by one click and unchecked again by the next.\<close>

theorem onClick_checkbox_toggles_once_witness:
  "type (item wrap_item) = Some Checkbox \<and> itemElement wrap_item = Some 1
   \<and> checked (item wrap_item) = Some False
   \<and> returns (onClick 5 wrap_item)
   \<and> checked (item (final (onClick 5 wrap_item))) = Some True
   \<and> attrs (nodes (final (onClick 5 wrap_item)) 1) ''role'' = Some ''menuitemcheckbox''
   \<and> attrs (nodes (final (onClick 5 wrap_item)) 1) ''aria-checked'' = Some ''true''
   \<and> ''checked'' \<in> set (classes (nodes (final (onClick 5 wrap_item)) 1))
   \<and> checked (item (final (onClick 6 (final (onClick 5 wrap_item))))) = Some False
   \<and> attrs (nodes (final (onClick 6 (final (onClick 5 wrap_item)))) 1) ''role'' = Some ''menuitem''
   \<and> attrs (nodes (final (onClick 6 (final (onClick 5 wrap_item)))) 1) ''aria-checked'' = Some ''false''"
proof -
  let ?s1 = "final (onClick 5 wrap_item)"
  have t: "type (item wrap_item) = Some Checkbox"
    by (simp add: wrap_item_fields wrap_config_def)
  have c: "checked (item wrap_item) = Some False"
    by (simp add: wrap_item_fields wrap_config_def)
  note first = onClick_checkbox_toggles_once [OF t wrap_item_fields(3), of 5]
  have t1: "type (item ?s1) = Some Checkbox"
    using t wrap_item_fields(3)
    by (simp add: onClick_def updateChecked_rendered EventHelper_stop_def final_def
        setAttribute_def addClass_def removeClass_def upd_el_def split: option.splits)
  have i1: "itemElement ?s1 = Some 1"
    using t wrap_item_fields(3)
    by (simp add: onClick_def updateChecked_rendered EventHelper_stop_def final_def
        setAttribute_def addClass_def removeClass_def upd_el_def split: option.splits)
  note second = onClick_checkbox_toggles_once [OF t1 i1, of 6]
  show ?thesis using t c wrap_item_fields(3) first second
    by (simp add: truthy_bool_def)
qed

text \<open>
  C9. \<open>onClick\<close> does not test whether the item is enabled. For a disabled item with a click
  handler, \<open>onClick\<close> still invokes the handler, once, and still toggles the checked flag
  of a checkbox item (also when the row is not mounted and the refresh then throws); so
  does the click listener that \<open>render\<close> registers, which calls \<open>onClick\<close>. The mouse-down
  listener is guarded: on a disabled item it changes nothing.
\<close>

theorem onClick_ignores_enabled:
  assumes "\<not> truthy_bool (enabled (item s))" and "click (item s) = Some h"
  shows "clicks (final (onClick ev s)) =
           clicks s @ [\<lparr>c_handler = h, c_item = item s, c_window = currentWindow s, c_event = event s\<rparr>]
       \<and> checked (item (final (onClick ev s))) =
           (if type (item s) = Some Checkbox then Some (\<not> truthy_bool (checked (item s)))
            else checked (item s))
       \<and> clicks (final (listener_run StopAndClick ev s)) =
           clicks s @ [\<lparr>c_handler = h, c_item = item s, c_window = currentWindow s, c_event = event s\<rparr>]
       \<and> listener_run ActivateOnPrimary ev s = Inr s"
  using assms
  by (auto simp: onClick_def listener_run_def updateChecked_def on_el_def EventHelper_stop_def final_def
      setAttribute_def addClass_def removeClass_def upd_el_def
      split: option.splits)

text \<open>
  The checkbox item is disabled and carries the class \<open>disabled\<close>; a click on it, direct
  or dispatched to the listeners of its container, reaches the handler and checks the
  item, while a mouse-down changes nothing.
\<close>

theorem onClick_ignores_enabled_witness:
  "\<not> truthy_bool (enabled (item wrap_item)) \<and> click (item wrap_item) = Some 7
   \<and> ''disabled'' \<in> set (classes (nodes wrap_item 0))
   \<and> clicks (final (onClick 5 wrap_item)) =
        [\<lparr>c_handler = 7, c_item = wrap_config, c_window = 1, c_event = None\<rparr>]
   \<and> checked (item (final (onClick 5 wrap_item))) = Some True
   \<and> clicks (final (listener_run StopAndClick 5 wrap_item)) =
        [\<lparr>c_handler = 7, c_item = wrap_config, c_window = 1, c_event = None\<rparr>]
   \<and> listener_run ActivateOnPrimary 5 wrap_item = Inr wrap_item
   \<and> dispatch MOUSE_DOWN 0 5 wrap_item = Inr wrap_item
   \<and> clicks (final (dispatch CLICK 0 5 wrap_item)) =
        [\<lparr>c_handler = 7, c_item = wrap_config, c_window = 1, c_event = None\<rparr>]"
proof -
  have off: "\<not> truthy_bool (enabled (item wrap_item))"
    by (simp add: wrap_item_fields wrap_config_def truthy_bool_def)
  have h: "click (item wrap_item) = Some 7"
    by (simp add: wrap_item_fields wrap_config_def)
  have cls: "''disabled'' \<in> set (classes (nodes wrap_item 0))"
    by (simp add: eval_defs)
  have ls: "listeners (nodes wrap_item 0) =
      [(MOUSE_DOWN, ActivateOnPrimary), (CLICK, StopAndClick), (DBLCLICK, StopOnly),
       (MOUSE_UP, Deactivate), (MOUSE_OUT, Deactivate)]"
    by (simp add: eval_defs)
  note inst = onClick_ignores_enabled [OF off h, of 5]
  have down: "dispatch MOUSE_DOWN 0 5 wrap_item = Inr wrap_item"
    using inst by (simp add: dispatch_def ls)
  have clk: "dispatch CLICK 0 5 wrap_item = listener_run StopAndClick 5 wrap_item"
    by (simp add: dispatch_def ls split: sum.splits)
  show ?thesis using off h cls inst down
    by (simp add: clk wrap_item_fields wrap_config_def truthy_bool_def)
qed

section \<open>The constructor\<close>

text \<open>
  C5. When mnemonics are enabled, the label is present and the pattern matches it, the
  constructor takes the first capture group when that group is present and not empty,
  and the second capture group otherwise; it returns, and the mnemonic is the key code of
  the capture it took, in upper case. When mnemonics are not enabled, or the label is
  absent or empty, or the pattern does not match the label, the constructor returns and
  the mnemonic stays unset.
\<close>

theorem constructor_mnemonic:
  "(truthy_bool (enableMnemonics opts) \<and> label it = Some l \<and> l \<noteq> []
      \<and> MENU_MNEMONIC_REGEX env l = Some m \<and> m_group1 m = Some g1 \<and> g1 \<noteq> []
     \<longrightarrow> returns (new_MenuItem env it opts win w)
         \<and> mnemonic (final (new_MenuItem env it opts win w)) =
             Some (fromString env (toLocaleUpperCase env g1)))
   \<and> (truthy_bool (enableMnemonics opts) \<and> label it = Some l \<and> l \<noteq> []
      \<and> MENU_MNEMONIC_REGEX env l = Some m \<and> \<not> truthy_str (m_group1 m) \<and> m_group2 m = Some g2
     \<longrightarrow> returns (new_MenuItem env it opts win w)
         \<and> mnemonic (final (new_MenuItem env it opts win w)) =
             Some (fromString env (toLocaleUpperCase env g2)))
   \<and> (\<not> truthy_bool (enableMnemonics opts) \<or> \<not> truthy_str (label it)
        \<or> (label it = Some l \<and> MENU_MNEMONIC_REGEX env l = None)
     \<longrightarrow> returns (new_MenuItem env it opts win w)
         \<and> mnemonic (final (new_MenuItem env it opts win w)) = None)"
  by (auto simp: new_MenuItem_def mnemonic_group_def truthy_str_def final_def returns_def Let_def
      split: option.splits)

text \<open>
  The label \<^verbatim>\<open>Word &Wrap\<close> matches with the first group \<^verbatim>\<open>W\<close> and gives the key of
  \<^verbatim>\<open>W\<close> with mnemonics enabled and none without; the label \<^verbatim>\<open>&&x\<close> matches with no
  first group and the second group \<^verbatim>\<open>x\<close>, and gives the key of \<^verbatim>\<open>X\<close>; an item without
  label and the label \<^verbatim>\<open>Quit\<close>, which has no marker, give none.
\<close>

theorem constructor_mnemonic_witness:
  "truthy_bool (enableMnemonics mnemonics_on) \<and> label wrap_config = Some ''Word &Wrap''
   \<and> MENU_MNEMONIC_REGEX env0 ''Word &Wrap'' =
        Some \<lparr>m_index = 5, m_text = ''&W'', m_group1 = Some ''W'', m_group2 = None\<rparr>
   \<and> returns (new_MenuItem env0 wrap_config mnemonics_on 1 world0)
   \<and> mnemonic (final (new_MenuItem env0 wrap_config mnemonics_on 1 world0)) = Some 87
   \<and> label double_config = Some ''&&x''
   \<and> MENU_MNEMONIC_REGEX env0 ''&&x'' =
        Some \<lparr>m_index = 0, m_text = ''&&x'', m_group1 = None, m_group2 = Some ''x''\<rparr>
   \<and> returns (new_MenuItem env0 double_config mnemonics_on 1 world0)
   \<and> mnemonic (final (new_MenuItem env0 double_config mnemonics_on 1 world0)) = Some 88
   \<and> \<not> truthy_bool (enableMnemonics mnemonics_off)
   \<and> returns (new_MenuItem env0 wrap_config mnemonics_off 1 world0)
   \<and> mnemonic (final (new_MenuItem env0 wrap_config mnemonics_off 1 world0)) = None
   \<and> \<not> truthy_str (label icon_config)
   \<and> returns (new_MenuItem env0 icon_config mnemonics_on 1 world0)
   \<and> mnemonic (final (new_MenuItem env0 icon_config mnemonics_on 1 world0)) = None
   \<and> label plain_config = Some ''Quit'' \<and> MENU_MNEMONIC_REGEX env0 ''Quit'' = None
   \<and> returns (new_MenuItem env0 plain_config mnemonics_on 1 world0)
   \<and> mnemonic (final (new_MenuItem env0 plain_config mnemonics_on 1 world0)) = None"
proof -
  let ?m = "\<lparr>m_index = 5, m_text = ''&W'', m_group1 = Some ''W'', m_group2 = None\<rparr>"
  let ?d = "\<lparr>m_index = 0, m_text = ''&&x'', m_group1 = None, m_group2 = Some ''x''\<rparr>"
  have on: "truthy_bool (enableMnemonics mnemonics_on)"
    by (simp add: mnemonics_on_def truthy_bool_def)
  have off: "\<not> truthy_bool (enableMnemonics mnemonics_off)"
    by (simp add: mnemonics_off_def truthy_bool_def)
  have lbl: "label wrap_config = Some ''Word &Wrap''" "label double_config = Some ''&&x''"
    by (simp_all add: wrap_config_def double_config_def)
  have m: "MENU_MNEMONIC_REGEX env0 ''Word &Wrap'' = Some ?m"
      "MENU_MNEMONIC_REGEX env0 ''&&x'' = Some ?d"
    by (simp_all add: env0_def)
  have g: "m_group1 ?m = Some ''W''" "\<not> truthy_str (m_group1 ?d)" "m_group2 ?d = Some ''x''"
    by (simp_all add: truthy_str_def)
  have key: "fromString env0 (toLocaleUpperCase env0 ''W'') = 87"
      "fromString env0 (toLocaleUpperCase env0 ''x'') = 88"
    by (simp_all add: env_defs)
  have nolabel: "\<not> truthy_str (label icon_config)"
    by (simp add: icon_config_def truthy_str_def)
  have quit: "label plain_config = Some ''Quit''" "MENU_MNEMONIC_REGEX env0 ''Quit'' = None"
    by (simp_all add: plain_config_def env0_def)
  note first_group = constructor_mnemonic
    [where env = env0 and it = wrap_config and opts = mnemonics_on and l = "''Word &Wrap''"
       and m = ?m and ?g1.0 = "''W''" and ?g2.0 = "''x''" and win = 1 and w = world0]
  note second_group = constructor_mnemonic
    [where env = env0 and it = double_config and opts = mnemonics_on and l = "''&&x''"
       and m = ?d and ?g1.0 = "''W''" and ?g2.0 = "''x''" and win = 1 and w = world0]
  note disabled = constructor_mnemonic
    [where env = env0 and it = wrap_config and opts = mnemonics_off and l = "''Word &Wrap''"
       and m = ?m and ?g1.0 = "''W''" and ?g2.0 = "''x''" and win = 1 and w = world0]
  note unlabelled = constructor_mnemonic
    [where env = env0 and it = icon_config and opts = mnemonics_on and l = "''Quit''"
       and m = ?m and ?g1.0 = "''W''" and ?g2.0 = "''x''" and win = 1 and w = world0]
  note unmarked = constructor_mnemonic
    [where env = env0 and it = plain_config and opts = mnemonics_on and l = "''Quit''"
       and m = ?m and ?g1.0 = "''W''" and ?g2.0 = "''x''" and win = 1 and w = world0]
  show ?thesis
    using on off lbl m g nolabel quit first_group second_group disabled unlabelled unmarked
    by (simp add: key)
qed

section \<open>Enabled and disabled rows\<close>

text \<open>
  C6. For a rendered item \<open>updateEnabled\<close> returns. An enabled item that is not a separator
  gets the tab index zero on its container and loses the class \<open>disabled\<close>. Any other
  item, so every separator and every disabled item, gets the class \<open>disabled\<close>, and
  \<open>updateEnabled\<close> does not write its tab index: the container keeps the tab index it had,
  so it is unreachable by tab when it had none.
\<close>

theorem updateEnabled_tab_reach:
  assumes "container s = Some c"
  shows "returns (updateEnabled s)
       \<and> (if truthy_bool (enabled (item s)) \<and> type (item s) \<noteq> Some Separator then
            tabIndex (nodes (final (updateEnabled s)) c) = Some 0
            \<and> ''disabled'' \<notin> set (classes (nodes (final (updateEnabled s)) c))
          else
            tabIndex (nodes (final (updateEnabled s)) c) = tabIndex (nodes s c)
            \<and> ''disabled'' \<in> set (classes (nodes (final (updateEnabled s)) c)))"
  using assms
  by (simp add: updateEnabled_def on_el_def final_def returns_def set_tabIndex_def addClass_def
      removeClass_def upd_el_def)

text \<open>
  An enabled separator and the disabled checkbox item have no tab index and are marked
  disabled; the enabled item has the tab index zero and is not marked.
\<close>

theorem updateEnabled_tab_reach_witness:
  "container separator_item = Some 0 \<and> type (item separator_item) = Some Separator
   \<and> enabled (item separator_item) = Some True
   \<and> tabIndex (nodes separator_item 0) = None
   \<and> returns (updateEnabled separator_item)
   \<and> tabIndex (nodes (final (updateEnabled separator_item)) 0) = None
   \<and> ''disabled'' \<in> set (classes (nodes (final (updateEnabled separator_item)) 0))
   \<and> container file_item = Some 0 \<and> enabled (item file_item) = Some True
   \<and> returns (updateEnabled file_item)
   \<and> tabIndex (nodes (final (updateEnabled file_item)) 0) = Some 0
   \<and> ''disabled'' \<notin> set (classes (nodes (final (updateEnabled file_item)) 0))
   \<and> container wrap_item = Some 0 \<and> enabled (item wrap_item) = Some False
   \<and> tabIndex (nodes wrap_item 0) = None
   \<and> tabIndex (nodes (final (updateEnabled wrap_item)) 0) = None
   \<and> ''disabled'' \<in> set (classes (nodes (final (updateEnabled wrap_item)) 0))"
proof -
  have t0: "tabIndex (nodes separator_item 0) = None"
    by (simp add: eval_defs)
  have t1: "tabIndex (nodes wrap_item 0) = None"
    by (simp add: eval_defs)
  note sep = updateEnabled_tab_reach [OF separator_item_fields(2)]
  note fil = updateEnabled_tab_reach [OF file_item_fields(3)]
  note wrap = updateEnabled_tab_reach [OF wrap_item_fields(2)]
  show ?thesis using sep fil wrap t0 t1
    by (simp add: separator_item_fields file_item_fields wrap_item_fields
        separator_config_def file_config_def wrap_config_def truthy_bool_def)
qed

text \<open>
  The enabled item was rendered with the tab index zero. When its config is then disabled,
  or turned into a separator, \<open>updateEnabled\<close> marks the container disabled and leaves the
  tab index zero in place: the item is still reachable by tab.
\<close>

theorem updateEnabled_stale_tabIndex_counterexample:
  "tabIndex (nodes file_item 0) = Some 0
   \<and> container (file_item\<lparr>item := file_config\<lparr>enabled := Some False\<rparr>\<rparr>) = Some 0
   \<and> \<not> truthy_bool (enabled (item (file_item\<lparr>item := file_config\<lparr>enabled := Some False\<rparr>\<rparr>)))
   \<and> returns (updateEnabled (file_item\<lparr>item := file_config\<lparr>enabled := Some False\<rparr>\<rparr>))
   \<and> ''disabled'' \<in> set (classes (nodes (final (updateEnabled
         (file_item\<lparr>item := file_config\<lparr>enabled := Some False\<rparr>\<rparr>))) 0))
   \<and> tabIndex (nodes (final (updateEnabled
         (file_item\<lparr>item := file_config\<lparr>enabled := Some False\<rparr>\<rparr>))) 0) = Some 0
   \<and> type (item (file_item\<lparr>item := file_config\<lparr>type := Some Separator\<rparr>\<rparr>)) = Some Separator
   \<and> returns (updateEnabled (file_item\<lparr>item := file_config\<lparr>type := Some Separator\<rparr>\<rparr>))
   \<and> ''disabled'' \<in> set (classes (nodes (final (updateEnabled
         (file_item\<lparr>item := file_config\<lparr>type := Some Separator\<rparr>\<rparr>))) 0))
   \<and> tabIndex (nodes (final (updateEnabled
         (file_item\<lparr>item := file_config\<lparr>type := Some Separator\<rparr>\<rparr>))) 0) = Some 0"
proof -
  have t: "tabIndex (nodes file_item 0) = Some 0"
    by (simp add: eval_defs)
  show ?thesis using t file_item_fields(3)
    by (simp add: updateEnabled_def on_el_def final_def returns_def addClass_def upd_el_def
        truthy_bool_def file_config_def)
qed

section \<open>Disposal\<close>







section \<open>Colours\<close>

text \<open>
  C8. For a rendered item, whose check indicator and row are different elements,
  \<open>style\<close> stores the style, applies it and returns. The foreground colour is the
  selection foreground when the container has the class \<open>focused\<close> and that colour is
  present, and the base foreground otherwise; likewise the background. The foreground
  becomes the background of the check indicator and the text colour of the row, the
  background becomes the background of the row; each of the three inline declarations
  is exactly that colour, so an absent colour leaves no declaration, whatever was there.
\<close>

theorem style_applies_colors:
  assumes "itemElement s = Some ie" and "checkElement s = Some ce" and "ie \<noteq> ce"
  shows "returns (style st s)
       \<and> menuStyle (final (style st s)) = Some st
       \<and> style_decl (nodes (final (style st s)) ce) ''backgroundColor'' =
           (if isSelected s \<and> selectionForegroundColor st \<noteq> None then selectionForegroundColor st
            else foregroundColor st)
       \<and> style_decl (nodes (final (style st s)) ie) ''color'' =
           (if isSelected s \<and> selectionForegroundColor st \<noteq> None then selectionForegroundColor st
            else foregroundColor st)
       \<and> style_decl (nodes (final (style st s)) ie) ''backgroundColor'' =
           (if isSelected s \<and> selectionBackgroundColor st \<noteq> None then selectionBackgroundColor st
            else backgroundColor st)"
  using assms
  by (auto simp: style_def applyStyle_def on_el_def final_def returns_def set_style_def upd_el_def
      isSelected_def hasClass_def fgColor_def bgColor_def split: option.splits)

text \<open>
  A style with a selection foreground and no selection background: the unfocused item
  gets the base colours; the focused item gets the selection foreground and, for want of
  a selection background, the base background; a style without colours then clears all
  three declarations.
\<close>

theorem style_applies_colors_witness:
  "itemElement file_item = Some 1 \<and> checkElement file_item = Some 2 \<and> (1::nat) \<noteq> 2
   \<and> \<not> isSelected file_item
   \<and> style_decl (nodes (final (style red_style file_item)) 2) ''backgroundColor'' = Some ''#111''
   \<and> style_decl (nodes (final (style red_style file_item)) 1) ''color'' = Some ''#111''
   \<and> style_decl (nodes (final (style red_style file_item)) 1) ''backgroundColor'' = Some ''#eee''
   \<and> isSelected (final (focus file_item))
   \<and> style_decl (nodes (final (style red_style (final (focus file_item)))) 2) ''backgroundColor'' = Some ''#fff''
   \<and> style_decl (nodes (final (style red_style (final (focus file_item)))) 1) ''color'' = Some ''#fff''
   \<and> style_decl (nodes (final (style red_style (final (focus file_item)))) 1) ''backgroundColor'' = Some ''#eee''
   \<and> style_decl (nodes (final (style bare_style (final (style red_style file_item)))) 2) ''backgroundColor'' = None
   \<and> style_decl (nodes (final (style bare_style (final (style red_style file_item)))) 1) ''color'' = None
   \<and> style_decl (nodes (final (style bare_style (final (style red_style file_item)))) 1) ''backgroundColor'' = None"
proof -
  let ?f = "final (focus file_item)"
  let ?r = "final (style red_style file_item)"
  have ne: "(1::nat) \<noteq> 2" by simp
  have unsel: "\<not> isSelected file_item"
    by (simp add: isSelected_def eval_defs)
  have f: "itemElement ?f = Some 1" "checkElement ?f = Some 2" "isSelected ?f"
    by (simp_all add: focus_def applyStyle_def isSelected_def eval_defs)
  have r: "itemElement ?r = Some 1" "checkElement ?r = Some 2"
    by (simp_all add: style_def applyStyle_def isSelected_def fgColor_def bgColor_def eval_defs)
  note plain = style_applies_colors [OF file_item_fields(4) file_item_fields(5) ne, of red_style]
  note focused = style_applies_colors [OF f(1) f(2) ne, of red_style]
  note cleared = style_applies_colors [OF r ne, of bare_style]
  show ?thesis using plain focused cleared unsel f(3)
    by (simp add: file_item_fields red_style_def bare_style_def)
qed

end
